theory Spec2Isabelle
  imports Main
begin

section \<open>Strings, bytes and insertion-ordered dictionaries\<close>

text \<open>
  A Python \<open>str\<close> is a sequence of code points. A \<^typ>\<open>char\<close> stands for one code point
  below 256, so \<^const>\<open>length\<close> of a \<^typ>\<open>string\<close> is what Python's \<open>len\<close> counts on the
  text. A \<open>bytes\<close> value is a list of bytes, also held in \<^typ>\<open>char\<close>s; \<open>encode_utf8\<close> is
  \<open>str.encode("utf-8")\<close> on such text: one byte for a code point below 128, two bytes for
  the others.
\<close>

type_synonym bytes = "char list"

text \<open>
  Text decoded from the bytes of the wire can hold any code point, so it is kept as the
  list of its code points; \<open>code_points_of\<close> is the text written with the given
  characters.
\<close>

type_synonym code_points = "nat list"

definition code_points_of :: "string \<Rightarrow> code_points" where
  "code_points_of s = map of_char s"

definition newline :: string where
  "newline = [CHR 0x0A]"

definition encode_char :: "char \<Rightarrow> bytes" where
  "encode_char c =
     (let n = (of_char c :: nat)
      in if n < 128 then [c] else [char_of (192 + n div 64), char_of (128 + n mod 64)])"

definition encode_utf8 :: "string \<Rightarrow> bytes" where
  "encode_utf8 s = concat (map encode_char s)"

text \<open>Decimal rendering, as an f-string renders an integer.\<close>

fun str_of_nat :: "nat \<Rightarrow> string" where
  "str_of_nat n =
     (if n < 10 then [char_of (48 + n)]
      else str_of_nat (n div 10) @ [char_of (48 + n mod 10)])"

declare str_of_nat.simps [simp del]

definition str_of_int :: "int \<Rightarrow> string" where
  "str_of_int i = (if i < 0 then ''-'' @ str_of_nat (nat (- i)) else str_of_nat (nat i))"

text \<open>\<open>sep.join(xs)\<close>.\<close>

fun join :: "string \<Rightarrow> string list \<Rightarrow> string" where
  "join sep [] = []"
| "join sep [x] = x"
| "join sep (x # y # ys) = x @ sep @ join sep (y # ys)"

text \<open>\<open>s.replace(old, new)\<close> for a one-character \<open>old\<close>.\<close>

definition replace_char :: "char \<Rightarrow> string \<Rightarrow> string \<Rightarrow> string" where
  "replace_char old new s = concat (map (\<lambda>c. if c = old then new else [c]) s)"

text \<open>
  A Python \<open>dict\<close> keeps its keys in insertion order; \<open>d[k] = v\<close> on a key already present
  replaces the value where the key stands, and appends the pair otherwise.
\<close>

fun dict_set :: "('k \<times> 'v) list \<Rightarrow> 'k \<Rightarrow> 'v \<Rightarrow> ('k \<times> 'v) list" where
  "dict_set [] k v = [(k, v)]"
| "dict_set ((k', v') # kvs) k v =
     (if k' = k then (k, v) # kvs else (k', v') # dict_set kvs k v)"

section \<open>Response (response.py)\<close>

text \<open>
  The fields of \<open>Response\<close>. The status is optional because the class attribute
  \<open>HTTPException.status_code\<close> is \<open>None\<close>; the body is a \<open>str\<close> or \<open>None\<close>. The encoding
  field is the constant \<open>"utf-8"\<close>.
\<close>

record response =
  resp_version :: string
  resp_status :: "int option"
  resp_body :: "string option"
  resp_content_type :: string
  resp_headers :: "(string \<times> string) list"

text \<open>
  \<open>Response(body, status, content_type)\<close>; every construction in the repository leaves
  \<open>headers\<close> and \<open>version\<close> at their defaults, an empty dictionary and \<open>"1.1"\<close>.
\<close>

definition Response :: "string option \<Rightarrow> int option \<Rightarrow> string \<Rightarrow> response" where
  "Response body status content_type =
     \<lparr>resp_version = ''1.1'', resp_status = status, resp_body = body,
      resp_content_type = content_type, resp_headers = []\<rparr>"

definition add_body :: "response \<Rightarrow> string \<Rightarrow> response" where
  "add_body r data = r\<lparr>resp_body := Some data\<rparr>"

definition add_header :: "response \<Rightarrow> string \<Rightarrow> string \<Rightarrow> response" where
  "add_header r key val = r\<lparr>resp_headers := dict_set (resp_headers r) key val\<rparr>"

text \<open>
  What the program can raise: an instance of an \<open>HTTPException\<close> subclass, which is a
  \<open>Response\<close> as well; an instance of any other subclass of \<open>Exception\<close>, with its class
  name and its \<open>str\<close>; and an instance of a \<open>BaseException\<close> that is not an \<open>Exception\<close>
  (\<open>KeyboardInterrupt\<close>, \<open>SystemExit\<close>, \<open>GeneratorExit\<close>).
\<close>

datatype exn =
    HTTPExc response
  | Exc string string
  | BaseExc string string

definition none_unpack_error :: exn where
  "none_unpack_error = Exc ''TypeError'' ''cannot unpack non-iterable NoneType object''"

definition none_len_error :: exn where
  "none_len_error = Exc ''TypeError'' ''object of type 'NoneType' has no len()''"

text \<open>
  The reason phrases of \<open>http.server.BaseHTTPRequestHandler.responses\<close>, the standard
  library's table (as of CPython 3.11). \<open>Response.__str__\<close> reads only the phrase of an
  entry, so the table is kept as status to phrase. The functions below take the table as
  an argument; \<open>web_responses\<close> is the one the module binds.
\<close>

definition web_responses :: "int \<Rightarrow> string option" where
  "web_responses = map_of
    [(100, ''Continue''),
     (101, ''Switching Protocols''),
     (102, ''Processing''),
     (103, ''Early Hints''),
     (200, ''OK''),
     (201, ''Created''),
     (202, ''Accepted''),
     (203, ''Non-Authoritative Information''),
     (204, ''No Content''),
     (205, ''Reset Content''),
     (206, ''Partial Content''),
     (207, ''Multi-Status''),
     (208, ''Already Reported''),
     (226, ''IM Used''),
     (300, ''Multiple Choices''),
     (301, ''Moved Permanently''),
     (302, ''Found''),
     (303, ''See Other''),
     (304, ''Not Modified''),
     (305, ''Use Proxy''),
     (307, ''Temporary Redirect''),
     (308, ''Permanent Redirect''),
     (400, ''Bad Request''),
     (401, ''Unauthorized''),
     (402, ''Payment Required''),
     (403, ''Forbidden''),
     (404, ''Not Found''),
     (405, ''Method Not Allowed''),
     (406, ''Not Acceptable''),
     (407, ''Proxy Authentication Required''),
     (408, ''Request Timeout''),
     (409, ''Conflict''),
     (410, ''Gone''),
     (411, ''Length Required''),
     (412, ''Precondition Failed''),
     (413, ''Request Entity Too Large''),
     (414, ''Request-URI Too Long''),
     (415, ''Unsupported Media Type''),
     (416, ''Requested Range Not Satisfiable''),
     (417, ''Expectation Failed''),
     (418, ''I'm a Teapot''),
     (421, ''Misdirected Request''),
     (422, ''Unprocessable Entity''),
     (423, ''Locked''),
     (424, ''Failed Dependency''),
     (425, ''Too Early''),
     (426, ''Upgrade Required''),
     (428, ''Precondition Required''),
     (429, ''Too Many Requests''),
     (431, ''Request Header Fields Too Large''),
     (451, ''Unavailable For Legal Reasons''),
     (500, ''Internal Server Error''),
     (501, ''Not Implemented''),
     (502, ''Bad Gateway''),
     (503, ''Service Unavailable''),
     (504, ''Gateway Timeout''),
     (505, ''HTTP Version Not Supported''),
     (506, ''Variant Also Negotiates''),
     (507, ''Insufficient Storage''),
     (508, ''Loop Detected''),
     (510, ''Not Extended''),
     (511, ''Network Authentication Required'')]"

text \<open>
  \<open>web_responses.get(self._status)\<close>: \<open>None\<close> for a status the table does not hold, and
  for the status \<open>None\<close>.
\<close>

definition lookup_status :: "(int \<Rightarrow> string option) \<Rightarrow> int option \<Rightarrow> string option" where
  "lookup_status tbl st = (case st of None \<Rightarrow> None | Some s \<Rightarrow> tbl s)"

definition str_of_status :: "int option \<Rightarrow> string" where
  "str_of_status st = (case st of None \<Rightarrow> ''None'' | Some s \<Rightarrow> str_of_int s)"

definition header_line :: "string \<times> string \<Rightarrow> string" where
  "header_line kv = fst kv @ '': '' @ snd kv"

text \<open>
  \<open>Response.__str__\<close> (sketch/response.py). Unpacking the looked-up entry raises
  \<open>TypeError\<close> when the lookup gave \<open>None\<close>; the list of the four fixed lines is built
  next, and \<open>len(self._body)\<close> in it raises \<open>TypeError\<close> on a body that is \<open>None\<close>. The
  header lines follow in the dictionary's order, the body is appended behind a newline,
  and the lines are joined by newlines.
\<close>

definition response_str :: "(int \<Rightarrow> string option) \<Rightarrow> response \<Rightarrow> exn + string" where
  "response_str tbl r =
     (case lookup_status tbl (resp_status r) of
        None \<Rightarrow> Inl none_unpack_error
      | Some status_msg \<Rightarrow>
          (case resp_body r of
             None \<Rightarrow> Inl none_len_error
           | Some b \<Rightarrow>
               Inr (join newline
                 ([''HTTP/'' @ resp_version r @ '' '' @ str_of_status (resp_status r)
                     @ '' '' @ status_msg,
                   ''Content-Type: '' @ resp_content_type r,
                   ''Content-Length: '' @ str_of_nat (length b),
                   ''Connection: close'']
                  @ map header_line (resp_headers r)
                  @ [newline @ b]))))"

text \<open>
  \<open>str(response).encode(self._encoding)\<close>, the bytes that \<open>Server.response_writer\<close> hands
  to the transport.
\<close>

definition response_bytes :: "(int \<Rightarrow> string option) \<Rightarrow> response \<Rightarrow> exn + bytes" where
  "response_bytes tbl r =
     (case response_str tbl r of Inl e \<Rightarrow> Inl e | Inr s \<Rightarrow> Inr (encode_utf8 s))"

section \<open>The HTTP exceptions (exceptions.py)\<close>

text \<open>
  \<open>HTTPException.__init__\<close>: the reason is the body, the class's \<open>status_code\<close> the status,
  and \<open>content_type or "text/plain"\<close> the content type (\<open>None\<close> and the empty string are
  both false).
\<close>

definition HTTPException :: "int option \<Rightarrow> string option \<Rightarrow> string option \<Rightarrow> response" where
  "HTTPException status_code reason content_type =
     Response reason status_code
       (case content_type of None \<Rightarrow> ''text/plain''
        | Some c \<Rightarrow> if c = [] then ''text/plain'' else c)"

definition HTTPNotFound :: "string option \<Rightarrow> string option \<Rightarrow> response" where
  "HTTPNotFound reason content_type = HTTPException (Some 404) reason content_type"

definition HTTPBadRequest :: "string option \<Rightarrow> string option \<Rightarrow> response" where
  "HTTPBadRequest reason content_type = HTTPException (Some 400) reason content_type"

definition HTTPFound :: "string \<Rightarrow> string option \<Rightarrow> string option \<Rightarrow> response" where
  "HTTPFound location reason content_type =
     add_header (HTTPException (Some 302) reason content_type) ''Location'' location"

section \<open>The router (router.py)\<close>

text \<open>
  The class \<open>\w\<close> of Python's \<open>re\<close> on text: the code points for which \<open>str.isalnum\<close>
  holds, and the underscore. Below 256 these are the ASCII digits and letters, the
  underscore, and the Latin-1 letters and numerals listed.
\<close>

definition is_word_char :: "char \<Rightarrow> bool" where
  "is_word_char c =
     (let n = (of_char c :: nat)
      in (48 \<le> n \<and> n \<le> 57) \<or> (65 \<le> n \<and> n \<le> 90) \<or> n = 95 \<or> (97 \<le> n \<and> n \<le> 122)
         \<or> n = 170 \<or> (178 \<le> n \<and> n \<le> 179) \<or> n = 181 \<or> (185 \<le> n \<and> n \<le> 186)
         \<or> (188 \<le> n \<and> n \<le> 190) \<or> (192 \<le> n \<and> n \<le> 214) \<or> (216 \<le> n \<and> n \<le> 246)
         \<or> 248 \<le> n)"

text \<open>
  \<open>_param_regex\<close>, the pattern \<open>{(?P<param>\w+)}\<close>, tried at the head of a text: an opening
  brace, the longest non-empty run of word characters, a closing brace. (Giving back word
  characters cannot help, since the character after a shorter run is a word character and
  not the brace.) The result is the captured parameter.
\<close>

definition match_param :: "string \<Rightarrow> string option" where
  "match_param s =
     (case s of
        [] \<Rightarrow> None
      | c # t \<Rightarrow>
          if c = CHR ''{'' then
            (case dropWhile is_word_char t of
               [] \<Rightarrow> None
             | d # _ \<Rightarrow>
                 if takeWhile is_word_char t \<noteq> [] \<and> d = CHR ''}''
                 then Some (takeWhile is_word_char t) else None)
          else None)"

text \<open>
  \<open>re.finditer(self._param_regex, path)\<close>: the matches from left to right, none
  overlapping, each as (start, end, parameter). \<open>pos\<close> is the index of the head of the
  remaining text and \<open>skip\<close> the number of characters still inside the previous match.
\<close>

fun finditer_param :: "nat \<Rightarrow> nat \<Rightarrow> string \<Rightarrow> (nat \<times> nat \<times> string) list" where
  "finditer_param pos skip [] = []"
| "finditer_param pos (Suc k) (c # s) = finditer_param (Suc pos) k s"
| "finditer_param pos 0 (c # s) =
     (case match_param (c # s) of
        None \<Rightarrow> finditer_param (Suc pos) 0 s
      | Some w \<Rightarrow> (pos, pos + length w + 2, w) # finditer_param (Suc pos) (length w + 1) s)"

text \<open>\<open>s[i:j]\<close> for indices that are not negative.\<close>

definition slice :: "string \<Rightarrow> nat \<Rightarrow> nat \<Rightarrow> string" where
  "slice s i j = take (j - i) (drop i s)"

text \<open>\<open>r"(?P<%s>\w+)" % param\<close>.\<close>

definition group_regex :: "string \<Rightarrow> string" where
  "group_regex param = ''(?P<'' @ param @ ''>'' @ [CHR 0x5C] @ ''w+)''"

text \<open>
  \<open>UrlDispatcher._format_pattern\<close>: the loop over the matches, with its two variables
  \<open>regex\<close> and \<open>last_pos\<close>; the value returned is \<open>regex\<close> as the loop leaves it.
\<close>

fun format_loop :: "string \<Rightarrow> (nat \<times> nat \<times> string) list \<Rightarrow> string \<Rightarrow> nat \<Rightarrow> string" where
  "format_loop path [] regex last_pos = regex"
| "format_loop path ((start, stop, param) # ms) regex last_pos =
     format_loop path ms (regex @ slice path last_pos start @ group_regex param) stop"

definition format_pattern :: "string \<Rightarrow> string" where
  "format_pattern path = format_loop path (finditer_param 0 0 path) [] 0"

text \<open>
  \<open>UrlDispatcher.add_route\<close>. The route table is a dictionary keyed by the pair of
  method and compiled pattern.
\<close>

definition add_route ::
  "((string \<times> string) \<times> 'h) list \<Rightarrow> string \<Rightarrow> string \<Rightarrow> 'h \<Rightarrow> ((string \<times> string) \<times> 'h) list" where
  "add_route routes method path handler =
     dict_set routes (method, format_pattern path) handler"

subsection \<open>The regular expressions that routes compile to\<close>

text \<open>
  \<open>re.match\<close> is modelled on the patterns made of three kinds of items: a character
  that is not special in a regular expression, which matches itself; a dot, which matches
  any character but a newline; and a named group \<open>(?P<name>\w+)\<close> whose name is a Python
  identifier. \<open>re_compile\<close> gives \<open>None\<close> on every other pattern (other special
  characters, other groups, a name that is not an identifier, a name used twice): those
  are outside the model, and nothing is stated about them.
\<close>

datatype tok = Lit char | Dot | Group string

definition is_meta :: "char \<Rightarrow> bool" where
  "is_meta c = (c \<in> set (''.^$*+?{}[]|()'' @ [CHR 0x5C]))"

text \<open>\<open>str.isidentifier\<close> on code points below 256.\<close>

definition is_id_continue :: "char \<Rightarrow> bool" where
  "is_id_continue c =
     (let n = (of_char c :: nat)
      in n = 183 \<or> (is_word_char c \<and> n \<noteq> 178 \<and> n \<noteq> 179 \<and> n \<noteq> 185
                     \<and> n \<noteq> 188 \<and> n \<noteq> 189 \<and> n \<noteq> 190))"

definition is_id_start :: "char \<Rightarrow> bool" where
  "is_id_start c =
     (let n = (of_char c :: nat)
      in is_id_continue c \<and> n \<noteq> 183 \<and> \<not> (48 \<le> n \<and> n \<le> 57))"

definition is_identifier :: "string \<Rightarrow> bool" where
  "is_identifier name =
     (case name of [] \<Rightarrow> False | c # cs \<Rightarrow> is_id_start c \<and> list_all is_id_continue cs)"

text \<open>
  The text behind an opening parenthesis, read as the rest of \<open>(?P<name>\w+)\<close>: the name,
  and how many characters the rest of the group takes.
\<close>

definition parse_group :: "string \<Rightarrow> (string \<times> nat) option" where
  "parse_group s =
     (let name = takeWhile (\<lambda>c. c \<noteq> CHR ''>'') (drop 3 s)
      in if take 3 s = ''?P<'' \<and> is_identifier name
            \<and> take 5 (drop (3 + length name) s) = ''>'' @ [CHR 0x5C] @ ''w+)''
         then Some (name, length name + 8) else None)"

fun re_parse :: "string \<Rightarrow> tok list option" where
  "re_parse [] = Some []"
| "re_parse (c # s) =
     (if c = CHR ''('' then
        (case parse_group s of
           None \<Rightarrow> None
         | Some (name, n) \<Rightarrow> map_option (Cons (Group name)) (re_parse (drop n s)))
      else if c = CHR ''.'' then map_option (Cons Dot) (re_parse s)
      else if is_meta c then None
      else map_option (Cons (Lit c)) (re_parse s))"

fun group_names :: "tok list \<Rightarrow> string list" where
  "group_names [] = []"
| "group_names (Group name # ts) = name # group_names ts"
| "group_names (t # ts) = group_names ts"

definition re_compile :: "string \<Rightarrow> tok list option" where
  "re_compile p =
     (case re_parse p of
        None \<Rightarrow> None
      | Some ts \<Rightarrow> if distinct (group_names ts) then Some ts else None)"

text \<open>
  Matching at the head of the text, as the backtracking matcher does it: a group takes
  the longest run of word characters first and gives characters back one at a time, down
  to one, until the rest of the pattern matches. The result is the \<open>groupdict\<close> of the
  match, in the order of the groups. The text need not be used up: \<open>re.match\<close> anchors
  the pattern at the start only.
\<close>

fun match_here :: "tok list \<Rightarrow> string \<Rightarrow> (string \<times> string) list option"
  and match_group :: "string \<Rightarrow> tok list \<Rightarrow> string \<Rightarrow> nat \<Rightarrow> (string \<times> string) list option" where
  "match_here [] s = Some []"
| "match_here (Lit c # ts) s =
     (case s of [] \<Rightarrow> None | d # s' \<Rightarrow> if d = c then match_here ts s' else None)"
| "match_here (Dot # ts) s =
     (case s of [] \<Rightarrow> None | d # s' \<Rightarrow> if d \<noteq> CHR 0x0A then match_here ts s' else None)"
| "match_here (Group name # ts) s =
     match_group name ts s (length (takeWhile is_word_char s))"
| "match_group name ts s 0 = None"
| "match_group name ts s (Suc k) =
     (case match_here ts (drop (Suc k) s) of
        Some gd \<Rightarrow> Some ((name, take (Suc k) s) # gd)
      | None \<Rightarrow> match_group name ts s k)"

text \<open>
  \<open>re.match(pattern, string)\<close>: \<open>None\<close> outside the model, \<open>Some None\<close> for Python's
  \<open>None\<close> (no match), \<open>Some (Some gd)\<close> for a match whose \<open>groupdict()\<close> is \<open>gd\<close>.
\<close>

definition re_match :: "string \<Rightarrow> string \<Rightarrow> (string \<times> string) list option option" where
  "re_match pattern s = map_option (\<lambda>ts. match_here ts s) (re_compile pattern)"

subsection \<open>Requests and resolution\<close>

text \<open>
  The fields of \<open>Request\<close> (request.py). \<open>req_raw_path\<close> is \<open>request.url.raw_path\<close>, the
  path as the URL parser gives it. The headers are the dictionary of the connection
  adapter, decoded text under decoded names. The back-reference to the application is
  left out.
\<close>

record request =
  req_version :: string
  req_method :: string
  req_raw_path :: string
  req_headers :: "(code_points \<times> code_points) list"
  req_body :: "bytes option"
  req_match_info :: "(string \<times> string) list"

text \<open>
  \<open>UrlDispatcher.resolve\<close>. The loop body ends in \<open>raise\<close> or \<open>return\<close> on each of its
  paths, so only the first item of the dictionary is ever looked at; with no item the loop
  is skipped and the function returns \<open>None\<close>. The outer \<open>option\<close> is \<open>None\<close> where the
  first pattern is outside the model of \<open>re.match\<close>.
\<close>

fun resolve ::
  "((string \<times> string) \<times> 'h) list \<Rightarrow> request
     \<Rightarrow> (exn + ((string \<times> string) list \<times> 'h) option) option" where
  "resolve [] request = Some (Inr None)"
| "resolve (((method, pattern), handler) # later) request =
     (case re_match pattern (req_raw_path request) of
        None \<Rightarrow> None
      | Some None \<Rightarrow>
          Some (Inl (HTTPExc (HTTPNotFound
            (Some (''Could not find '' @ req_raw_path request)) None)))
      | Some (Some groupdict) \<Rightarrow>
          if method \<noteq> req_method request then
            Some (Inl (HTTPExc (HTTPNotFound
              (Some (req_method request @ '' not allowed for '' @ req_raw_path request))
              None)))
          else Some (Inr (Some (groupdict, handler))))"

section \<open>The application (application.py, helpers.py)\<close>

text \<open>
  A handler or middleware returns a value or raises. The value is a \<open>Response\<close>, or
  something that is not one, kept as the text of its type. An \<open>await\<close> is a call here:
  one request is followed from resolution to the response writer.
\<close>

datatype retval = RetResponse response | RetOther string

type_synonym handler = "request \<Rightarrow> exn + retval"

type_synonym middleware = "request \<Rightarrow> handler \<Rightarrow> exn + retval"

record app =
  app_routes :: "((string \<times> string) \<times> handler) list"
  app_middlewares :: "middleware list"

text \<open>
  \<open>server_exception_templ.format(exc=..., traceback=...)\<close>: the template of helpers.py
  with its two fields filled in.
\<close>

definition server_exception_templ :: "string \<Rightarrow> string \<Rightarrow> string" where
  "server_exception_templ exc traceback =
     newline @ ''<div>'' @ newline
     @ ''    <h1>500 Internal server error</h1>'' @ newline
     @ ''    <span>Server got itself in trouble : <b>'' @ exc @ ''</b><span>'' @ newline
     @ ''    <p>'' @ traceback @ ''</p>'' @ newline
     @ ''</div>'' @ newline"

text \<open>
  \<open>format_exception\<close>. \<open>tb\<close> is the text that \<open>traceback.format_exc()\<close> returns for the
  exception being handled, and \<open>exc_str\<close> is \<open>str(exc)\<close>.
\<close>

definition format_exception :: "string \<Rightarrow> string \<Rightarrow> response" where
  "format_exception tb exc_str =
     add_body (Response None (Some 500) ''text/html'')
       (server_exception_templ exc_str (replace_char (CHR 0x0A) ''</br>'' tb))"

text \<open>
  \<open>functools.partial(md, handler=handler)\<close>: the callable that passes its argument on to
  \<open>md\<close> together with the handler bound here.
\<close>

definition functools_partial :: "middleware \<Rightarrow> handler \<Rightarrow> handler" where
  "functools_partial md handler = (\<lambda>request. md request handler)"

text \<open>
  The name \<open>partial\<close> as the module sketch/application.py binds it. The module imports
  \<open>partialmethod\<close> and \<open>wraps\<close> from \<open>functools\<close> and nothing else of it, so the name is
  not bound, and evaluating it raises \<open>NameError\<close>.
\<close>

definition application_partial :: "(middleware \<Rightarrow> handler \<Rightarrow> handler) option" where
  "application_partial = None"

definition partial_name_error :: exn where
  "partial_name_error = Exc ''NameError'' ''name 'partial' is not defined''"

text \<open>
  The middleware loop of \<open>Application._handler\<close> in sketch/application.py:
  \<open>for md in self._middlewares: handler = partial(md, handler=handler)\<close>, under the
  binding of \<open>partial\<close> given as first argument.
\<close>

primrec wrap_middlewares ::
  "(middleware \<Rightarrow> handler \<Rightarrow> handler) option \<Rightarrow> middleware list \<Rightarrow> handler \<Rightarrow> exn + handler" where
  "wrap_middlewares partial [] handler = Inr handler"
| "wrap_middlewares partial (md # mds) handler =
     (case partial of
        None \<Rightarrow> Inl partial_name_error
      | Some p \<Rightarrow> wrap_middlewares partial mds (p md handler))"

text \<open>
  The \<open>try\<close> block of \<open>Application._handler\<close> (sketch/application.py): resolve, unpack
  the result (which raises \<open>TypeError\<close> on \<open>None\<close>), store the match info in the request,
  wrap the handler, call it.
\<close>

definition handler_try ::
  "(middleware \<Rightarrow> handler \<Rightarrow> handler) option \<Rightarrow> app \<Rightarrow> request \<Rightarrow> (exn + retval) option" where
  "handler_try partial a request =
     (case resolve (app_routes a) request of
        None \<Rightarrow> None
      | Some (Inl e) \<Rightarrow> Some (Inl e)
      | Some (Inr None) \<Rightarrow> Some (Inl none_unpack_error)
      | Some (Inr (Some (match_info, handler))) \<Rightarrow>
          Some (case wrap_middlewares partial (app_middlewares a) handler of
                  Inl e \<Rightarrow> Inl e
                | Inr h \<Rightarrow> h (request\<lparr>req_match_info := match_info\<rparr>)))"

text \<open>
  The \<open>except\<close> clauses and the rest of \<open>Application._handler\<close>: an \<open>HTTPException\<close> is
  the response, another \<open>Exception\<close> goes through \<open>format_exception\<close>, anything else that
  was raised propagates; a value that is not a \<open>Response\<close> raises \<open>RuntimeError\<close>; the
  response is passed to \<open>response_writer\<close>, whose outcome is the outcome of the call.
\<close>

definition handler_finish ::
  "string \<Rightarrow> (response \<Rightarrow> exn + 'w) \<Rightarrow> exn + retval \<Rightarrow> exn + 'w" where
  "handler_finish tb response_writer outcome =
     (case outcome of
        Inl (HTTPExc r) \<Rightarrow> response_writer r
      | Inl (Exc cls msg) \<Rightarrow> response_writer (format_exception tb msg)
      | Inl (BaseExc cls msg) \<Rightarrow> Inl (BaseExc cls msg)
      | Inr (RetResponse r) \<Rightarrow> response_writer r
      | Inr (RetOther ty) \<Rightarrow>
          Inl (Exc ''RuntimeError'' (''expect Response instance but got '' @ ty)))"

definition handler_with ::
  "(middleware \<Rightarrow> handler \<Rightarrow> handler) option \<Rightarrow> string \<Rightarrow> app \<Rightarrow> request
     \<Rightarrow> (response \<Rightarrow> exn + 'w) \<Rightarrow> (exn + 'w) option" where
  "handler_with partial tb a request response_writer =
     map_option (handler_finish tb response_writer) (handler_try partial a request)"

text \<open>\<open>Application._handler\<close> of sketch/application.py, in its own module.\<close>

definition app_handler ::
  "string \<Rightarrow> app \<Rightarrow> request \<Rightarrow> (response \<Rightarrow> exn + 'w) \<Rightarrow> (exn + 'w) option" where
  "app_handler = handler_with application_partial"

text \<open>
  The single-file copy sketch.py has another middleware loop:
  \<open>for mwares in self._middlewares: resp = await mwares(request, handler)\<close>. Each
  middleware is called with the resolved handler, and \<open>resp\<close> is what the last call
  returned.
\<close>

primrec call_each :: "middleware list \<Rightarrow> request \<Rightarrow> handler \<Rightarrow> retval \<Rightarrow> exn + retval" where
  "call_each [] request handler resp = Inr resp"
| "call_each (mwares # rest) request handler resp =
     (case mwares request handler of
        Inl e \<Rightarrow> Inl e
      | Inr r \<Rightarrow> call_each rest request handler r)"

definition handler_try_single_file :: "app \<Rightarrow> request \<Rightarrow> (exn + retval) option" where
  "handler_try_single_file a request =
     (case resolve (app_routes a) request of
        None \<Rightarrow> None
      | Some (Inl e) \<Rightarrow> Some (Inl e)
      | Some (Inr None) \<Rightarrow> Some (Inl none_unpack_error)
      | Some (Inr (Some (match_info, handler))) \<Rightarrow>
          Some (if app_middlewares a \<noteq> []
                then call_each (app_middlewares a) (request\<lparr>req_match_info := match_info\<rparr>)
                       handler (RetOther ''<class 'NoneType'>'')
                else handler (request\<lparr>req_match_info := match_info\<rparr>)))"

definition app_handler_single_file ::
  "string \<Rightarrow> app \<Rightarrow> request \<Rightarrow> (response \<Rightarrow> exn + 'w) \<Rightarrow> (exn + 'w) option" where
  "app_handler_single_file tb a request response_writer =
     map_option (handler_finish tb response_writer) (handler_try_single_file a request)"

section \<open>The connection adapter (server.py, http_parser.py)\<close>

text \<open>
  The name and the value of a header arrive as bytes and are stored decoded, as
  \<^typ>\<open>code_points\<close>.
\<close>

text \<open>
  \<open>bytes.decode("utf-8")\<close> with the default error handling: the text, or
  \<open>UnicodeDecodeError\<close> when the bytes are not well-formed UTF-8 (the message and the
  position the exception carries are not part of the model). \<open>decode_vals\<close> works on
  the values of the bytes. A byte below 128 is its own code point; a lead byte
  \<open>C2..DF\<close> takes one continuation byte \<open>80..BF\<close>, \<open>E0..EF\<close> two and \<open>F0..F4\<close>
  three, where the byte after \<open>E0\<close> is at least \<open>A0\<close>, after \<open>ED\<close> at most \<open>9F\<close>, after
  \<open>F0\<close> at least \<open>90\<close> and after \<open>F4\<close> at most \<open>8F\<close> (no overlong form, no surrogate,
  nothing above U+10FFFF); every other byte, and a sequence cut short, is an error.
\<close>

datatype codec_error = UnicodeDecodeError

definition is_cont :: "nat \<Rightarrow> bool" where
  "is_cont c = (128 \<le> c \<and> c \<le> 191)"

definition second_of3 :: "nat \<Rightarrow> nat \<Rightarrow> bool" where
  "second_of3 b c =
     ((if b = 224 then 160 else 128) \<le> c \<and> c \<le> (if b = 237 then 159 else 191))"

definition second_of4 :: "nat \<Rightarrow> nat \<Rightarrow> bool" where
  "second_of4 b c =
     ((if b = 240 then 144 else 128) \<le> c \<and> c \<le> (if b = 244 then 143 else 191))"

definition decoded :: "nat \<Rightarrow> codec_error + code_points \<Rightarrow> codec_error + code_points" where
  "decoded cp rest = (case rest of Inl e \<Rightarrow> Inl e | Inr t \<Rightarrow> Inr (cp # t))"

fun decode_vals :: "nat list \<Rightarrow> codec_error + code_points" where
  "decode_vals [] = Inr []"
| "decode_vals (b # bs) =
     (if b < 128 then decoded b (decode_vals bs)
      else if 194 \<le> b \<and> b \<le> 223 then
        (case bs of
           c1 # r \<Rightarrow>
             if is_cont c1
             then decoded ((b - 192) * 64 + (c1 - 128)) (decode_vals r)
             else Inl UnicodeDecodeError
         | _ \<Rightarrow> Inl UnicodeDecodeError)
      else if 224 \<le> b \<and> b \<le> 239 then
        (case bs of
           c1 # c2 # r \<Rightarrow>
             if second_of3 b c1 \<and> is_cont c2
             then decoded ((b - 224) * 4096 + (c1 - 128) * 64 + (c2 - 128)) (decode_vals r)
             else Inl UnicodeDecodeError
         | _ \<Rightarrow> Inl UnicodeDecodeError)
      else if 240 \<le> b \<and> b \<le> 244 then
        (case bs of
           c1 # c2 # c3 # r \<Rightarrow>
             if second_of4 b c1 \<and> is_cont c2 \<and> is_cont c3
             then decoded
                    ((b - 240) * 262144 + (c1 - 128) * 4096 + (c2 - 128) * 64 + (c3 - 128))
                    (decode_vals r)
             else Inl UnicodeDecodeError
         | _ \<Rightarrow> Inl UnicodeDecodeError)
      else Inl UnicodeDecodeError)"

definition decode_utf8 :: "bytes \<Rightarrow> codec_error + code_points" where
  "decode_utf8 bs = decode_vals (map of_char bs)"

text \<open>
  The UTF-8 form of one code point, as byte values. It is used below to show that
  decoding loses nothing: the decoded text encodes back to the bytes it came from.
\<close>

definition encode_code_point :: "nat \<Rightarrow> nat list" where
  "encode_code_point cp =
     (if cp < 128 then [cp]
      else if cp < 2048 then [192 + cp div 64, 128 + cp mod 64]
      else if cp < 65536 then
        [224 + cp div 4096, 128 + (cp div 64) mod 64, 128 + cp mod 64]
      else [240 + cp div 262144, 128 + (cp div 4096) mod 64, 128 + (cp div 64) mod 64,
            128 + cp mod 64])"

text \<open>
  The fields of \<open>Server\<close> that the parser callbacks and the transport callbacks write.
  A transport is known by a number.
\<close>

record server =
  srv_url :: "bytes option"
  srv_body :: "bytes option"
  srv_headers :: "(code_points \<times> code_points) list"
  srv_transport :: "nat option"

text \<open>\<open>Server.__init__\<close>.\<close>

definition Server :: server where
  "Server = \<lparr>srv_url = None, srv_body = None, srv_headers = [], srv_transport = None\<rparr>"

text \<open>
  \<open>HttpParserMixin.on_header\<close>: the name is decoded, then the value, then the value is
  stored in the dictionary under the name. A decoding error leaves the method before the
  assignment, so nothing is stored then. \<open>on_url\<close>, \<open>on_body\<close> and
  \<open>Server.connection_made\<close> store their argument.
\<close>

definition on_header :: "server \<Rightarrow> bytes \<Rightarrow> bytes \<Rightarrow> codec_error + server" where
  "on_header self header val =
     (case decode_utf8 header of
        Inl e \<Rightarrow> Inl e
      | Inr h \<Rightarrow>
          (case decode_utf8 val of
             Inl e \<Rightarrow> Inl e
           | Inr v \<Rightarrow> Inr (self\<lparr>srv_headers := dict_set (srv_headers self) h v\<rparr>)))"

definition on_url :: "server \<Rightarrow> bytes \<Rightarrow> server" where
  "on_url self url = self\<lparr>srv_url := Some url\<rparr>"

definition on_body :: "server \<Rightarrow> bytes \<Rightarrow> server" where
  "on_body self data = self\<lparr>srv_body := Some data\<rparr>"

definition connection_made :: "server \<Rightarrow> nat \<Rightarrow> server" where
  "connection_made self transport = self\<lparr>srv_transport := Some transport\<rparr>"

text \<open>
  Objects have identity: the store maps an address to the \<open>Server\<close> object living there,
  and \<open>store_next\<close> is the next free address.
\<close>

record store =
  store_next :: nat
  store_objs :: "nat \<Rightarrow> server option"

definition empty_store :: store where
  "empty_store = \<lparr>store_next = 0, store_objs = (\<lambda>_. None)\<rparr>"

text \<open>\<open>Application._make_server\<close>: a new \<open>Server\<close> object; its address is returned.\<close>

definition make_server :: "store \<Rightarrow> nat \<times> store" where
  "make_server st =
     (store_next st,
      st\<lparr>store_next := Suc (store_next st),
         store_objs := (store_objs st)(store_next st \<mapsto> Server)\<rparr>)"

text \<open>
  The protocol factory of \<open>run_app\<close>. \<open>protocol = app._make_server()\<close> runs once, before
  the server is created, and the factory passed to \<open>loop.create_server\<close> is
  \<open>lambda: protocol\<close>: called in any later store, it returns the address held in
  \<open>protocol\<close> and leaves the store as it is. The result is the factory and the store
  after the one call of \<open>_make_server\<close>.
\<close>

definition run_app :: "store \<Rightarrow> (store \<Rightarrow> nat \<times> store) \<times> store" where
  "run_app st = (case make_server st of (protocol, st') \<Rightarrow> ((\<lambda>s. (protocol, s)), st'))"

text \<open>
  What the event loop does with the factory on each accepted connection: it calls the
  factory and then \<open>connection_made\<close> of the protocol object it got, with the new
  transport.
\<close>

definition update_obj :: "nat \<Rightarrow> (server \<Rightarrow> server) \<Rightarrow> store \<Rightarrow> store" where
  "update_obj a f st =
     (case store_objs st a of
        None \<Rightarrow> st
      | Some obj \<Rightarrow> st\<lparr>store_objs := (store_objs st)(a \<mapsto> f obj)\<rparr>)"

definition accept_connection :: "(store \<Rightarrow> nat \<times> store) \<Rightarrow> nat \<Rightarrow> store \<Rightarrow> nat \<times> store" where
  "accept_connection factory transport st =
     (case factory st of
        (protocol, st') \<Rightarrow>
          (protocol, update_obj protocol (\<lambda>obj. connection_made obj transport) st'))"

section \<open>The example application (example.py)\<close>

text \<open>
  \<open>handler\<close> of example.py: \<open>request.match_info["username"]\<close> raises \<open>KeyError\<close> on a
  missing key (its \<open>str\<close> is the key in quotes); the response is
  \<open>Response(f"Hello, {username}")\<close>.
\<close>

definition example_handler :: handler where
  "example_handler request =
     (case map_of (req_match_info request) ''username'' of
        None \<Rightarrow> Inl (Exc ''KeyError'' ([CHR 0x27] @ ''username'' @ [CHR 0x27]))
      | Some username \<Rightarrow>
          Inr (RetResponse (Response (Some (''Hello, '' @ username)) (Some 200) ''text/plain'')))"

section \<open>Inputs for the concrete cases\<close>

text \<open>
  A request with the given method and path, as \<open>Request.__init__\<close> leaves it: no
  headers, no body, an empty match info.
\<close>

definition plain_request :: "string \<Rightarrow> string \<Rightarrow> request" where
  "plain_request method path =
     \<lparr>req_version = ''1.1'', req_method = method, req_raw_path = path,
      req_headers = [], req_body = None, req_match_info = []\<rparr>"

text \<open>A handler that raises the given exception.\<close>

definition raising_handler :: "exn \<Rightarrow> handler" where
  "raising_handler e = (\<lambda>request. Inl e)"

text \<open>
  A middleware that calls the handler it is given and wraps the body of the response in
  its tag, so that the body of the final response shows the nesting of the calls.
\<close>

definition tag_middleware :: "string \<Rightarrow> middleware" where
  "tag_middleware tag request handler =
     (case handler request of
        Inl e \<Rightarrow> Inl e
      | Inr (RetResponse r) \<Rightarrow>
          Inr (RetResponse
            (r\<lparr>resp_body := map_option (\<lambda>b. tag @ ''('' @ b @ '')'') (resp_body r)\<rparr>))
      | Inr (RetOther ty) \<Rightarrow> Inr (RetOther ty))"

section \<open>Supporting lemmas\<close>

lemma map_of_dict_set: "map_of (dict_set d k v) = (map_of d)(k \<mapsto> v)"
  by (induction d k v rule: dict_set.induct) auto

subsection \<open>Route compilation\<close>

lemma match_param_no_brace: "CHR ''{'' \<notin> set s \<Longrightarrow> match_param s = None"
  by (cases s) (auto simp: match_param_def)

lemma finditer_param_no_brace:
  "CHR ''{'' \<notin> set s \<Longrightarrow> finditer_param pos 0 s = []"
proof (induction s arbitrary: pos)
  case Nil
  show ?case by simp
next
  case (Cons c s)
  have "match_param (c # s) = None"
    using Cons.prems by (rule match_param_no_brace)
  moreover have "finditer_param (Suc pos) 0 s = []"
    using Cons by simp
  ultimately show ?case by simp
qed

text \<open>A path without an opening brace compiles to the empty pattern, whatever it holds.\<close>

lemma format_pattern_no_brace: "CHR ''{'' \<notin> set path \<Longrightarrow> format_pattern path = []"
  by (simp add: format_pattern_def finditer_param_no_brace)

text \<open>The empty pattern matches every path, with no parameters.\<close>

lemma re_match_empty: "re_match [] s = Some (Some [])"
  by (simp add: re_match_def re_compile_def)

subsection \<open>Resolution\<close>

text \<open>Only the first entry of the table decides.\<close>

lemma resolve_first_entry: "resolve (e # later) request = resolve [e] request"
  by (cases e rule: prod.exhaust, cases "fst e") auto

text \<open>
  When the first pattern does not match, the outcome is the not-found error naming the
  path, whatever the later entries are.
\<close>

lemma resolve_no_match:
  "re_match pattern (req_raw_path request) = Some None \<Longrightarrow>
     resolve (((method, pattern), handler) # later) request
       = Some (Inl (HTTPExc (HTTPNotFound
                 (Some (''Could not find '' @ req_raw_path request)) None)))"
  by simp

lemma username_pattern:
  "re_compile (format_pattern ''/{username}'') = Some [Lit (CHR ''/''), Group ''username'']"
  by code_simp

lemma match_group_all:
  "match_group name [] s (Suc k) = Some [(name, take (Suc k) s)]"
  by simp

text \<open>
  The pattern of \<open>/{username}\<close> on a path that is a slash, a name of word characters,
  and a rest that does not go on with a word character: the name is captured, the rest is
  not looked at.
\<close>

lemma re_match_username_prefix:
  assumes "w \<noteq> []" and "list_all is_word_char w" and "takeWhile is_word_char rest = []"
  shows "re_match (format_pattern ''/{username}'') (''/'' @ w @ rest)
           = Some (Some [(''username'', w)])"
proof -
  have all: "\<forall>c \<in> set w. is_word_char c"
    using assms(2) by (simp add: list_all_iff)
  have tw: "takeWhile is_word_char (w @ rest) = w"
    using all assms(3) by (simp add: takeWhile_append2)
  obtain k where k: "length w = Suc k"
    using assms(1) by (cases w) auto
  have "match_here [Lit (CHR ''/''), Group ''username''] (''/'' @ w @ rest)
          = match_group ''username'' [] (w @ rest) (length w)"
    by (simp add: tw)
  also have "\<dots> = Some [(''username'', take (length w) (w @ rest))]"
    unfolding k by (rule match_group_all)
  finally show ?thesis
    by (simp add: re_match_def username_pattern)
qed

lemma alice_word: "list_all is_word_char ''alice''"
  by code_simp

lemma extra_rest: "takeWhile is_word_char ''/extra'' = []"
  by code_simp

lemma resolve_alice:
  "resolve (add_route [] ''GET'' ''/{username}'' h) (plain_request ''GET'' ''/alice'')
     = Some (Inr (Some ([(''username'', ''alice'')], h)))"
proof -
  have "re_match (format_pattern ''/{username}'') (''/'' @ ''alice'' @ [])
          = Some (Some [(''username'', ''alice'')])"
    using alice_word by (intro re_match_username_prefix) simp_all
  then show ?thesis
    by (simp add: add_route_def plain_request_def)
qed

subsection \<open>Serialization\<close>

text \<open>
  The layout of the text of a response that has a body and a status the table knows:
  status line, the three fixed headers, the added headers in their order, an empty line,
  the body.
\<close>

lemma join_lines:
  "join newline (x # map header_line hs @ [newline @ b])
     = x @ concat (map (\<lambda>kv. newline @ header_line kv) hs) @ newline @ newline @ b"
  by (induction hs arbitrary: x) simp_all

lemma response_str_layout:
  "lookup_status tbl (resp_status r) = Some status_msg \<Longrightarrow> resp_body r = Some b \<Longrightarrow>
     response_str tbl r =
       Inr (''HTTP/'' @ resp_version r @ '' '' @ str_of_status (resp_status r) @ '' ''
            @ status_msg
            @ newline @ ''Content-Type: '' @ resp_content_type r
            @ newline @ ''Content-Length: '' @ str_of_nat (length b)
            @ newline @ ''Connection: close''
            @ concat (map (\<lambda>kv. newline @ header_line kv) (resp_headers r))
            @ newline @ newline @ b)"
  by (simp add: response_str_def join_lines)

text \<open>The example of the specification: status 200, body \<open>hello\<close>, \<open>text/plain\<close>.\<close>

lemma response_str_hello:
  "response_str web_responses (Response (Some ''hello'') (Some 200) ''text/plain'')
     = Inr (''HTTP/1.1 200 OK'' @ newline @ ''Content-Type: text/plain'' @ newline
            @ ''Content-Length: 5'' @ newline @ ''Connection: close'' @ newline @ newline
            @ ''hello'')"
  by code_simp

text \<open>On ASCII text the encoded bytes are as many as the code points.\<close>

lemma encode_utf8_ascii:
  "list_all (\<lambda>c. (of_char c :: nat) < 128) s \<Longrightarrow> encode_utf8 s = s"
  by (induction s) (simp_all add: encode_utf8_def encode_char_def)

subsection \<open>Decoding header bytes\<close>

text \<open>
  The UTF-8 form of the code point that a well-formed sequence of two, three or four
  bytes decodes to is that sequence.
\<close>

lemma div_mod_64: "w < 64 \<Longrightarrow> (q * 64 + w) div 64 = q \<and> (q * 64 + w) mod 64 = (w::nat)"
  by simp

lemma enc2:
  assumes "194 \<le> b" "b \<le> 223" "is_cont c1"
  shows "encode_code_point ((b - 192) * 64 + (c1 - 128)) = [b, c1]"
proof -
  define x where "x = b - 192"
  define y where "y = c1 - 128"
  have b: "b = 192 + x" and c1: "c1 = 128 + y"
    using assms by (simp_all add: x_def y_def is_cont_def)
  have xb: "2 \<le> x" "x < 32" and yb: "y < 64"
    using assms by (auto simp add: x_def y_def is_cont_def)
  have ge: "128 \<le> x * 64 + y" and lt: "x * 64 + y < 2048"
    using xb yb by simp_all
  show ?thesis
    using ge lt div_mod_64 [OF yb, of x]
    by (simp add: encode_code_point_def b c1)
qed

lemma enc3:
  assumes "224 \<le> b" "b \<le> 239" "second_of3 b c1" "is_cont c2"
  shows "encode_code_point ((b - 224) * 4096 + (c1 - 128) * 64 + (c2 - 128)) = [b, c1, c2]"
proof -
  define x where "x = b - 224"
  define y where "y = c1 - 128"
  define z where "z = c2 - 128"
  have c1lo: "128 \<le> c1" and c1hi: "c1 \<le> 191"
    using assms(3) by (simp_all add: second_of3_def second_of4_def split: if_splits)
  have rb: "224 + (b - 224) = b" and rc1: "128 + (c1 - 128) = c1"
    and rc2: "128 + (c2 - 128) = c2"
    using assms c1lo by (simp_all add: is_cont_def)
  have xb: "x < 16" and yb: "y < 64" and zb: "z < 64"
    using assms c1hi by (auto simp add: x_def y_def z_def is_cont_def)
  have lo: "x = 0 \<longrightarrow> 32 \<le> y"
    using assms(1,3) unfolding x_def y_def second_of3_def second_of4_def
    by (auto split: if_splits)
  let ?q = "x * 64 + y"
  have cp: "x * 4096 + y * 64 + z = ?q * 64 + z"
    by simp
  have q32: "32 \<le> ?q"
    using lo by (cases "x = 0") simp_all
  have ge: "2048 \<le> ?q * 64 + z"
    using q32 by simp
  have qlt: "?q < 1024"
    using xb yb by simp
  have lt: "?q * 64 + z < 65536"
    using qlt zb by simp
  have d1: "(?q * 64 + z) div 64 = ?q" and m1: "(?q * 64 + z) mod 64 = z"
    using div_mod_64 [OF zb, of ?q] by simp_all
  have d2: "?q div 64 = x" and m2: "?q mod 64 = y"
    using div_mod_64 [OF yb, of x] by simp_all
  have d3: "(?q * 64 + z) div 4096 = x"
  proof -
    have "(?q * 64 + z) div 4096 = ((?q * 64 + z) div 64) div 64"
      by (simp add: div_mult2_eq)
    then show ?thesis by (simp only: d1 d2)
  qed
  have "encode_code_point (?q * 64 + z) = [224 + x, 128 + y, 128 + z]"
    using ge lt by (simp only: encode_code_point_def d1 m1 d2 m2 d3) simp
  then have "encode_code_point (x * 4096 + y * 64 + z) = [224 + x, 128 + y, 128 + z]"
    by (simp only: cp)
  then show ?thesis
    unfolding x_def y_def z_def by (simp only: rb rc1 rc2)
qed

lemma enc4:
  assumes "240 \<le> b" "b \<le> 244" "second_of4 b c1" "is_cont c2" "is_cont c3"
  shows "encode_code_point
           ((b - 240) * 262144 + (c1 - 128) * 4096 + (c2 - 128) * 64 + (c3 - 128))
         = [b, c1, c2, c3]"
proof -
  define x where "x = b - 240"
  define y where "y = c1 - 128"
  define z where "z = c2 - 128"
  define w where "w = c3 - 128"
  have c1lo: "128 \<le> c1" and c1hi: "c1 \<le> 191"
    using assms(3) by (simp_all add: second_of3_def second_of4_def split: if_splits)
  have rb: "240 + (b - 240) = b" and rc1: "128 + (c1 - 128) = c1"
    and rc2: "128 + (c2 - 128) = c2" and rc3: "128 + (c3 - 128) = c3"
    using assms c1lo by (simp_all add: is_cont_def)
  have xb: "x < 5" and yb: "y < 64" and zb: "z < 64" and wb: "w < 64"
    using assms c1hi by (auto simp add: x_def y_def z_def w_def is_cont_def)
  have lo: "x = 0 \<longrightarrow> 16 \<le> y"
    using assms(1,3) unfolding x_def y_def second_of3_def second_of4_def
    by (auto split: if_splits)
  let ?p = "x * 64 + y"
  let ?q = "?p * 64 + z"
  have cp: "x * 262144 + y * 4096 + z * 64 + w = ?q * 64 + w"
    by simp
  have p16: "16 \<le> ?p"
    using lo by (cases "x = 0") simp_all
  have ge: "65536 \<le> ?q * 64 + w"
    using p16 by simp
  have d1: "(?q * 64 + w) div 64 = ?q" and m1: "(?q * 64 + w) mod 64 = w"
    using div_mod_64 [OF wb, of ?q] by simp_all
  have d2: "?q div 64 = ?p" and m2: "?q mod 64 = z"
    using div_mod_64 [OF zb, of ?p] by simp_all
  have d3: "?p div 64 = x" and m3: "?p mod 64 = y"
    using div_mod_64 [OF yb, of x] by simp_all
  have d4: "(?q * 64 + w) div 4096 = ?p"
  proof -
    have "(?q * 64 + w) div 4096 = ((?q * 64 + w) div 64) div 64"
      by (simp add: div_mult2_eq)
    then show ?thesis by (simp only: d1 d2)
  qed
  have d5: "(?q * 64 + w) div 262144 = x"
  proof -
    have "(?q * 64 + w) div 262144 = ((?q * 64 + w) div 4096) div 64"
      by (simp add: div_mult2_eq)
    then show ?thesis by (simp only: d4 d3)
  qed
  have "encode_code_point (?q * 64 + w) = [240 + x, 128 + y, 128 + z, 128 + w]"
    using ge by (simp only: encode_code_point_def d1 m1 d2 m2 d3 m3 d4 d5) simp
  then have "encode_code_point (x * 262144 + y * 4096 + z * 64 + w)
               = [240 + x, 128 + y, 128 + z, 128 + w]"
    by (simp only: cp)
  then show ?thesis
    unfolding x_def y_def z_def w_def by (simp only: rb rc1 rc2 rc3)
qed

text \<open>Decoding loses nothing: the text encodes back to the bytes.\<close>

lemma decoded_Inr: "decoded cp rest = Inr t \<Longrightarrow> \<exists>t'. rest = Inr t' \<and> t = cp # t'"
  by (cases rest) (simp_all add: decoded_def)

lemma decode_vals_encode:
  "decode_vals bs = Inr t \<Longrightarrow> concat (map encode_code_point t) = bs"
proof (induction bs arbitrary: t rule: decode_vals.induct)
  case 1
  then show ?case by simp
next
  case (2 b bs)
  show ?case
  proof (cases "b < 128")
    case True
    with "2.prems" obtain t' where t': "decode_vals bs = Inr t'" "t = b # t'"
      by (auto dest: decoded_Inr)
    from "2.IH"(1) [OF True t'(1)] True t'(2) show ?thesis
      by (simp add: encode_code_point_def)
  next
    case n1: False
    show ?thesis
    proof (cases "194 \<le> b \<and> b \<le> 223")
      case True
      with n1 "2.prems" obtain c1 r where bs: "bs = c1 # r" and c: "is_cont c1"
        and d: "decoded ((b - 192) * 64 + (c1 - 128)) (decode_vals r) = Inr t"
        by (auto split: list.splits if_splits)
      from d obtain t' where t': "decode_vals r = Inr t'" "t = ((b - 192) * 64 + (c1 - 128)) # t'"
        by (auto dest: decoded_Inr)
      have "concat (map encode_code_point t') = r"
        using "2.IH"(2) [OF n1 True bs c t'(1)] .
      then show ?thesis
        using True c by (simp add: t'(2) bs enc2)
    next
      case n2: False
      show ?thesis
      proof (cases "224 \<le> b \<and> b \<le> 239")
        case True
        with n1 n2 "2.prems" obtain c1 c2 r where bs: "bs = c1 # c2 # r"
          and c: "second_of3 b c1 \<and> is_cont c2"
          and d: "decoded ((b - 224) * 4096 + (c1 - 128) * 64 + (c2 - 128)) (decode_vals r) = Inr t"
          by (auto split: list.splits if_splits)
        from d obtain t' where t': "decode_vals r = Inr t'"
          "t = ((b - 224) * 4096 + (c1 - 128) * 64 + (c2 - 128)) # t'"
          by (auto dest: decoded_Inr)
        have "concat (map encode_code_point t') = r"
          using "2.IH"(3) [OF n1 n2 True bs refl c t'(1)] .
        then show ?thesis
          using True c by (simp add: t'(2) bs enc3)
      next
        case n3: False
        show ?thesis
        proof (cases "240 \<le> b \<and> b \<le> 244")
          case True
          with n1 n2 n3 "2.prems" obtain c1 c2 c3 r where bs: "bs = c1 # c2 # c3 # r"
            and c: "second_of4 b c1 \<and> is_cont c2 \<and> is_cont c3"
            and d: "decoded ((b - 240) * 262144 + (c1 - 128) * 4096 + (c2 - 128) * 64 + (c3 - 128))
                      (decode_vals r) = Inr t"
            by (auto split: list.splits if_splits)
          from d obtain t' where t': "decode_vals r = Inr t'"
            "t = ((b - 240) * 262144 + (c1 - 128) * 4096 + (c2 - 128) * 64 + (c3 - 128)) # t'"
            by (auto dest: decoded_Inr)
          have "concat (map encode_code_point t') = r"
            using "2.IH"(4) [OF n1 n2 n3 True bs refl refl c t'(1)] .
          then show ?thesis
            using True c by (simp add: t'(2) bs enc4)
        next
          case False
          with n1 n2 n3 "2.prems" show ?thesis
            by (auto split: if_splits)
        qed
      qed
    qed
  qed
qed

text \<open>Two byte strings that decode to the same text are the same bytes.\<close>

lemma decode_utf8_inj:
  assumes "decode_utf8 bs = Inr t" and "decode_utf8 bs' = Inr t"
  shows "bs = bs'"
proof -
  have "map of_char bs = concat (map encode_code_point t)"
    using assms(1) decode_vals_encode by (simp add: decode_utf8_def)
  moreover have "map of_char bs' = concat (map encode_code_point t)"
    using assms(2) decode_vals_encode by (simp add: decode_utf8_def)
  ultimately have "map (of_char :: char \<Rightarrow> nat) bs = map of_char bs'"
    by simp
  then show ?thesis
    by (simp add: inj_map_eq_map inj_on_def)
qed

subsection \<open>The generic failure page\<close>

lemma format_exception_fields:
  "resp_status (format_exception tb msg) = Some 500
   \<and> resp_content_type (format_exception tb msg) = ''text/html''
   \<and> resp_body (format_exception tb msg)
       = Some (server_exception_templ msg (replace_char (CHR 0x0A) ''</br>'' tb))"
  by (simp add: format_exception_def add_body_def Response_def)

lemma server_exception_templ_contains:
  "\<exists>pre mid post. server_exception_templ exc traceback = pre @ exc @ mid @ traceback @ post"
proof -
  have "server_exception_templ exc traceback
        = (newline @ ''<div>'' @ newline @ ''    <h1>500 Internal server error</h1>'' @ newline
            @ ''    <span>Server got itself in trouble : <b>'')
          @ exc @ (''</b><span>'' @ newline @ ''    <p>'') @ traceback
          @ (''</p>'' @ newline @ ''</div>'' @ newline)"
    by (simp add: server_exception_templ_def)
  then show ?thesis by blast
qed

section \<open>Route compilation keeps the literal text only in front of a placeholder\<close>

text \<open>
  Claim C1. Route compilation is to replace each placeholder by a named group and keep
  every other character, so that the pattern of \<open>/foo\<close> matches that path and no other.
  \<open>_format_pattern\<close> appends the text in front of each placeholder and never the text
  behind the last one: the path \<open>/foo\<close> compiles to the empty pattern, which matches
  \<open>/bar\<close> as well, and \<open>/users/{id}/posts\<close> loses \<open>/posts\<close>.
\<close>

theorem format_pattern_drops_literal_path:
  "format_pattern ''/foo'' = []
   \<and> re_match (format_pattern ''/foo'') ''/bar'' = Some (Some [])
   \<and> format_pattern ''/users/{id}/posts'' = ''/users/'' @ group_regex ''id''"
  by code_simp

section \<open>Resolution after registering a literal path and a placeholder path\<close>

text \<open>
  Claim C2. Resolution decides on the first registered entry, and after registering
  \<open>/foo\<close> and then \<open>/{x}\<close> a GET request for \<open>/bar\<close> is to fail with not-found. In the
  code the first entry is the empty pattern that \<open>/foo\<close> compiled to; it matches \<open>/bar\<close>,
  and the request resolves to the handler of \<open>/foo\<close> with no parameters. (On its own,
  \<open>/{x}\<close> resolves \<open>/bar\<close> with \<open>x = bar\<close>.)
\<close>

theorem resolve_foo_then_param_bar:
  "add_route (add_route [] ''GET'' ''/foo'' ''foo_handler'') ''GET'' ''/{x}'' ''x_handler''
     = [((''GET'', []), ''foo_handler''), ((''GET'', ''/'' @ group_regex ''x''), ''x_handler'')]
   \<and> resolve
         (add_route (add_route [] ''GET'' ''/foo'' ''foo_handler'') ''GET'' ''/{x}'' ''x_handler'')
         (plain_request ''GET'' ''/bar'')
       = Some (Inr (Some ([], ''foo_handler'')))
   \<and> resolve (add_route [] ''GET'' ''/{x}'' ''x_handler'') (plain_request ''GET'' ''/bar'')
       = Some (Inr (Some ([(''x'', ''bar'')], ''x_handler'')))"
  by code_simp

section \<open>Resolution against the pattern of one placeholder\<close>

text \<open>
  Claim C3, as stated, says that with \<open>/{username}\<close> registered for GET a request for
  \<open>/alice/extra\<close> does not match. It does: \<open>re.match\<close> anchors the pattern at the start
  of the path only, so the request resolves to the handler with \<open>username = alice\<close>.
\<close>

theorem resolve_alice_extra_matches:
  "re_match (format_pattern ''/{username}'') ''/alice/extra''
     = Some (Some [(''username'', ''alice'')])
   \<and> resolve (add_route [] ''GET'' ''/{username}'' example_handler)
         (plain_request ''GET'' ''/alice/extra'')
       = Some (Inr (Some ([(''username'', ''alice'')], example_handler)))"
  using re_match_username_prefix [of "''alice''" "''/extra''"] extra_rest alice_word
  by (simp add: add_route_def plain_request_def)

text \<open>
  Claim C3, amended. With the single pattern \<open>/{username}\<close> registered for GET, a GET
  request for a slash and a name of word characters resolves to the handler with the name
  as \<open>username\<close>, and so does every path that goes on behind the name with something
  that is not a word character: the pattern has to match a prefix of the path.
\<close>

theorem resolve_username_prefix:
  "w \<noteq> [] \<Longrightarrow> list_all is_word_char w \<Longrightarrow> takeWhile is_word_char rest = [] \<Longrightarrow>
     resolve (add_route [] ''GET'' ''/{username}'' h) (plain_request ''GET'' (''/'' @ w @ rest))
       = Some (Inr (Some ([(''username'', w)], h)))"
  using re_match_username_prefix [of w rest]
  by (simp add: add_route_def plain_request_def)

text \<open>The amended claim at the request for \<open>/alice\<close>.\<close>

theorem resolve_username_prefix_witness:
  "''alice'' \<noteq> [] \<and> list_all is_word_char ''alice'' \<and> takeWhile is_word_char [] = []
   \<and> resolve (add_route [] ''GET'' ''/{username}'' example_handler)
         (plain_request ''GET'' ''/alice'')
       = Some (Inr (Some ([(''username'', ''alice'')], example_handler)))"
proof -
  have h1: "''alice'' \<noteq> []" by simp
  have h2: "list_all is_word_char ''alice''" by code_simp
  have h3: "takeWhile is_word_char [] = []" by simp
  show ?thesis
    using h1 h2 h3 resolve_username_prefix [OF h1 h2 h3, of example_handler] by simp
qed

section \<open>Exceptions in the dispatch entry point\<close>

text \<open>
  Claim C4, as stated, says that every exception raised during resolution, middleware
  or the handler is caught in \<open>Application._handler\<close>. The clauses are
  \<open>except HTTPException\<close> and \<open>except Exception\<close>: a handler that raises
  \<open>KeyboardInterrupt\<close>, which is no \<open>Exception\<close>, has it leave \<open>_handler\<close>, and the
  response writer is not called.
\<close>

theorem handler_base_exception_escapes:
  "app_handler ''trace''
     \<lparr>app_routes = add_route [] ''GET'' ''/{username}''
                     (raising_handler (BaseExc ''KeyboardInterrupt'' [])),
      app_middlewares = []\<rparr>
     (plain_request ''GET'' ''/alice'') (Inr :: response \<Rightarrow> exn + response)
   = Some (Inl (BaseExc ''KeyboardInterrupt'' []))"
  by (simp add: app_handler_def handler_with_def handler_try_def handler_finish_def
      resolve_alice raising_handler_def)

text \<open>
  Claim C4, amended. Every exception that derives from \<open>Exception\<close> and is raised in the
  \<open>try\<close> block (resolution, middleware, handler) is caught in \<open>Application._handler\<close>:
  an \<open>HTTPException\<close> is passed to the response writer as the response, and any other
  one is replaced by a response with status 500, content type \<open>text/html\<close> and a body
  that holds the text of the exception and the formatted trace with its newlines written
  as \<open></br>\<close>. An exception that is no \<open>Exception\<close> propagates.
\<close>

theorem handler_catches_exceptions:
  "handler_try application_partial a request = Some (Inl e) \<Longrightarrow>
     (case e of
        HTTPExc r \<Rightarrow> app_handler tb a request w = Some (w r)
      | Exc cls msg \<Rightarrow>
          app_handler tb a request w = Some (w (format_exception tb msg))
          \<and> resp_status (format_exception tb msg) = Some 500
          \<and> resp_content_type (format_exception tb msg) = ''text/html''
          \<and> (\<exists>pre mid post. resp_body (format_exception tb msg)
                = Some (pre @ msg @ mid @ replace_char (CHR 0x0A) ''</br>'' tb @ post))
      | BaseExc cls msg \<Rightarrow> app_handler tb a request w = Some (Inl (BaseExc cls msg)))"
  using server_exception_templ_contains [of _ "replace_char (CHR 0x0A) ''</br>'' tb"]
  by (cases e)
     (simp_all add: app_handler_def handler_with_def handler_finish_def format_exception_fields)

text \<open>The amended claim at a handler that raises \<open>ValueError("boom")\<close>.\<close>

theorem handler_catches_exceptions_witness:
  "handler_try application_partial
     \<lparr>app_routes = add_route [] ''GET'' ''/{username}''
                     (raising_handler (Exc ''ValueError'' ''boom'')),
      app_middlewares = []\<rparr>
     (plain_request ''GET'' ''/alice'') = Some (Inl (Exc ''ValueError'' ''boom''))
   \<and> app_handler ''trace''
       \<lparr>app_routes = add_route [] ''GET'' ''/{username}''
                       (raising_handler (Exc ''ValueError'' ''boom'')),
        app_middlewares = []\<rparr>
       (plain_request ''GET'' ''/alice'') (Inr :: response \<Rightarrow> exn + response)
     = Some (Inr (format_exception ''trace'' ''boom''))
   \<and> resp_status (format_exception ''trace'' ''boom'') = Some 500"
proof -
  let ?a = "\<lparr>app_routes = add_route [] ''GET'' ''/{username}''
                     (raising_handler (Exc ''ValueError'' ''boom'')),
      app_middlewares = []\<rparr>"
  have h: "handler_try application_partial ?a (plain_request ''GET'' ''/alice'')
             = Some (Inl (Exc ''ValueError'' ''boom''))"
    by (simp add: handler_try_def resolve_alice raising_handler_def)
  from handler_catches_exceptions [OF h, of "''trace''" "Inr :: response \<Rightarrow> exn + response"]
  have "app_handler ''trace'' ?a (plain_request ''GET'' ''/alice'')
          (Inr :: response \<Rightarrow> exn + response) = Some (Inr (format_exception ''trace'' ''boom''))
        \<and> resp_status (format_exception ''trace'' ''boom'') = Some 500"
    by simp
  with h show ?thesis by blast
qed

section \<open>Dispatch through two middlewares\<close>

text \<open>
  Claim C5. With the middleware list \<open>[A, B]\<close> a request is to pass through \<open>A\<close>
  wrapping \<open>B\<close> wrapping the handler, which for the tagging middlewares and the example
  handler would give the body \<open>A(B(Hello, alice))\<close>. In sketch/application.py the loop
  evaluates the name \<open>partial\<close>, which the module does not bind: the request is answered
  by the generic failure page for the \<open>NameError\<close>, and no middleware runs. Were the name
  bound to \<open>functools.partial\<close>, the loop would leave \<open>B\<close> outermost. The single-file
  copy sketch.py calls \<open>A\<close> and then \<open>B\<close>, each on the handler itself, and answers with
  what \<open>B\<close> returned.
\<close>

theorem middlewares_A_B_dispatch:
  "app_handler tb
     \<lparr>app_routes = add_route [] ''GET'' ''/{username}'' example_handler,
      app_middlewares = [tag_middleware ''A'', tag_middleware ''B'']\<rparr>
     (plain_request ''GET'' ''/alice'') (Inr :: response \<Rightarrow> exn + response)
   = Some (Inr (format_exception tb ''name 'partial' is not defined''))
   \<and> handler_with (Some functools_partial) tb
     \<lparr>app_routes = add_route [] ''GET'' ''/{username}'' example_handler,
      app_middlewares = [tag_middleware ''A'', tag_middleware ''B'']\<rparr>
     (plain_request ''GET'' ''/alice'') (Inr :: response \<Rightarrow> exn + response)
   = Some (Inr (Response (Some ''B(A(Hello, alice))'') (Some 200) ''text/plain''))
   \<and> app_handler_single_file tb
     \<lparr>app_routes = add_route [] ''GET'' ''/{username}'' example_handler,
      app_middlewares = [tag_middleware ''A'', tag_middleware ''B'']\<rparr>
     (plain_request ''GET'' ''/alice'') (Inr :: response \<Rightarrow> exn + response)
   = Some (Inr (Response (Some ''B(Hello, alice)'') (Some 200) ''text/plain''))"
proof -
  let ?a = "\<lparr>app_routes = add_route [] ''GET'' ''/{username}'' example_handler,
      app_middlewares = [tag_middleware ''A'', tag_middleware ''B'']\<rparr>"
  let ?rq = "plain_request ''GET'' ''/alice''"
  have pkg: "handler_try application_partial ?a ?rq = Some (Inl partial_name_error)"
    by (simp add: handler_try_def resolve_alice application_partial_def)
  have bound: "handler_try (Some functools_partial) ?a ?rq
      = Some (Inr (RetResponse
          (Response (Some ''B(A(Hello, alice))'') (Some 200) ''text/plain'')))"
    apply (simp add: handler_try_def resolve_alice functools_partial_def)
    apply (simp add: tag_middleware_def example_handler_def Response_def)
    done
  have single: "handler_try_single_file ?a ?rq
      = Some (Inr (RetResponse (Response (Some ''B(Hello, alice)'') (Some 200) ''text/plain'')))"
    apply (simp add: handler_try_single_file_def resolve_alice)
    apply (simp add: tag_middleware_def example_handler_def Response_def)
    done
  show ?thesis
    by (simp add: app_handler_def handler_with_def app_handler_single_file_def pkg bound single
        handler_finish_def partial_name_error_def)
qed

section \<open>The Content-Length of a serialized response\<close>

text \<open>
  Claim C6. The serialized response is to carry a \<open>Content-Length\<close> equal to the byte
  length of the body. \<open>__str__\<close> writes \<open>len(self._body)\<close>, the number of code points of
  the text, and the bytes are made afterwards by encoding the whole text as UTF-8: a body
  of the one letter U+00E9 is announced with \<open>Content-Length: 1\<close> and is two bytes on the
  wire.
\<close>

theorem content_length_counts_code_points:
  "response_str web_responses (Response (Some [CHR 0xE9]) (Some 200) ''text/plain'')
     = Inr (''HTTP/1.1 200 OK'' @ newline @ ''Content-Type: text/plain'' @ newline
            @ ''Content-Length: 1'' @ newline @ ''Connection: close'' @ newline @ newline
            @ [CHR 0xE9])
   \<and> encode_utf8 [CHR 0xE9] = [CHR 0xC3, CHR 0xA9]
   \<and> length (encode_utf8 [CHR 0xE9]) = 2"
  by code_simp

section \<open>Header names in the connection adapter\<close>

text \<open>
  Claim C7, as stated, says that the key of a header is case-normalized when it is stored.
  \<open>on_header\<close> decodes the name and stores it as it is: \<open>Host\<close> and \<open>host\<close> end up as
  two keys.
\<close>

theorem on_header_keeps_case:
  "(case on_header Server ''Host'' ''a.example'' of
      Inl e \<Rightarrow> Inl e
    | Inr self \<Rightarrow> on_header self ''host'' ''b.example'')
     = Inr (Server\<lparr>srv_headers :=
              [(code_points_of ''Host'', code_points_of ''a.example''),
               (code_points_of ''host'', code_points_of ''b.example'')]\<rparr>)"
  by code_simp

text \<open>
  Claim C7, amended. For every header delivered by the wire parser whose name and value
  are well-formed UTF-8, the key stored in the header mapping is the name decoded as
  UTF-8, with no case normalization: the value is stored under exactly that key, the
  entry of every other key stays as it was, and no name with other bytes (another
  spelling of the case, for one) decodes to the same key, so two spellings are stored
  under two keys and only the identical name replaces an earlier value. When the name or
  the value is not well-formed UTF-8, \<open>on_header\<close> raises \<open>UnicodeDecodeError\<close> and
  stores nothing.
\<close>

theorem on_header_stores_key_as_delivered:
  "(decode_utf8 header = Inr k \<and> decode_utf8 val = Inr v \<longrightarrow>
      on_header self header val
        = Inr (self\<lparr>srv_headers := dict_set (srv_headers self) k v\<rparr>)
      \<and> map_of (dict_set (srv_headers self) k v) k = Some v
      \<and> (\<forall>k'. k' \<noteq> k \<longrightarrow>
            map_of (dict_set (srv_headers self) k v) k' = map_of (srv_headers self) k')
      \<and> (\<forall>other. other \<noteq> header \<longrightarrow> decode_utf8 other \<noteq> Inr k))
   \<and> (decode_utf8 header = Inl UnicodeDecodeError \<or> decode_utf8 val = Inl UnicodeDecodeError
        \<longrightarrow> on_header self header val = Inl UnicodeDecodeError)"
proof (intro conjI impI)
  assume ok: "decode_utf8 header = Inr k \<and> decode_utf8 val = Inr v"
  then show "on_header self header val
               = Inr (self\<lparr>srv_headers := dict_set (srv_headers self) k v\<rparr>)"
    by (simp add: on_header_def)
  show "map_of (dict_set (srv_headers self) k v) k = Some v"
    by (simp add: map_of_dict_set)
  show "\<forall>k'. k' \<noteq> k \<longrightarrow>
          map_of (dict_set (srv_headers self) k v) k' = map_of (srv_headers self) k'"
    by (simp add: map_of_dict_set)
  show "\<forall>other. other \<noteq> header \<longrightarrow> decode_utf8 other \<noteq> Inr k"
    using ok decode_utf8_inj by blast
next
  assume "decode_utf8 header = Inl UnicodeDecodeError \<or> decode_utf8 val = Inl UnicodeDecodeError"
  then show "on_header self header val = Inl UnicodeDecodeError"
    by (cases "decode_utf8 header"; cases "decode_utf8 val")
       (auto simp add: on_header_def intro: codec_error.exhaust)
qed

text \<open>
  The amended claim on an adapter that holds \<open>Host: a.example\<close>: the second spelling
  \<open>host\<close> gets a key of its own, the identical name \<open>Host\<close> replaces the value, a value
  with a two-byte letter is stored decoded, and a name that is not UTF-8 raises.
\<close>

theorem on_header_stores_key_as_delivered_witness:
  "decode_utf8 ''host'' = Inr (code_points_of ''host'')
   \<and> decode_utf8 ''b.example'' = Inr (code_points_of ''b.example'')
   \<and> on_header
         (Server\<lparr>srv_headers := [(code_points_of ''Host'', code_points_of ''a.example'')]\<rparr>)
         ''host'' ''b.example''
       = Inr (Server\<lparr>srv_headers :=
                [(code_points_of ''Host'', code_points_of ''a.example''),
                 (code_points_of ''host'', code_points_of ''b.example'')]\<rparr>)
   \<and> decode_utf8 ''Host'' \<noteq> Inr (code_points_of ''host'')
   \<and> on_header
         (Server\<lparr>srv_headers := [(code_points_of ''Host'', code_points_of ''a.example'')]\<rparr>)
         ''Host'' ''c.example''
       = Inr (Server\<lparr>srv_headers :=
                [(code_points_of ''Host'', code_points_of ''c.example'')]\<rparr>)
   \<and> on_header
         (Server\<lparr>srv_headers := [(code_points_of ''Host'', code_points_of ''a.example'')]\<rparr>)
         ''X-Name'' [CHR 0xC3, CHR 0xA9]
       = Inr (Server\<lparr>srv_headers :=
                [(code_points_of ''Host'', code_points_of ''a.example''),
                 (code_points_of ''X-Name'', [233])]\<rparr>)
   \<and> decode_utf8 [CHR 0xFF] = Inl UnicodeDecodeError
   \<and> on_header
         (Server\<lparr>srv_headers := [(code_points_of ''Host'', code_points_of ''a.example'')]\<rparr>)
         [CHR 0xFF] ''x''
       = Inl UnicodeDecodeError"
proof -
  let ?S = "Server\<lparr>srv_headers := [(code_points_of ''Host'', code_points_of ''a.example'')]\<rparr>"
  have host: "decode_utf8 ''host'' = Inr (code_points_of ''host'')"
    by code_simp
  have b: "decode_utf8 ''b.example'' = Inr (code_points_of ''b.example'')"
    by code_simp
  have Host: "decode_utf8 ''Host'' = Inr (code_points_of ''Host'')"
    by code_simp
  have c: "decode_utf8 ''c.example'' = Inr (code_points_of ''c.example'')"
    by code_simp
  have xname: "decode_utf8 ''X-Name'' = Inr (code_points_of ''X-Name'')"
    by code_simp
  have eacute: "decode_utf8 [CHR 0xC3, CHR 0xA9] = Inr [233]"
    by code_simp
  have bad: "decode_utf8 [CHR 0xFF] = Inl UnicodeDecodeError"
    by code_simp
  have differ: "''Host'' \<noteq> ''host''"
    by simp
  note second_all = on_header_stores_key_as_delivered
      [of "''host''" "code_points_of ''host''" "''b.example''" "code_points_of ''b.example''" ?S,
       THEN conjunct1, rule_format, OF conjI, OF host b]
  note second = second_all [THEN conjunct1]
  note other = second_all [THEN conjunct2, THEN conjunct2, THEN conjunct2, rule_format,
      OF differ]
  note replaced = on_header_stores_key_as_delivered
      [of "''Host''" "code_points_of ''Host''" "''c.example''" "code_points_of ''c.example''" ?S,
       THEN conjunct1, rule_format, OF conjI, OF Host c, THEN conjunct1]
  note nonascii = on_header_stores_key_as_delivered
      [of "''X-Name''" "code_points_of ''X-Name''" "[CHR 0xC3, CHR 0xA9]" "[233]" ?S,
       THEN conjunct1, rule_format, OF conjI, OF xname eacute, THEN conjunct1]
  note raises = on_header_stores_key_as_delivered
      [of "[CHR 0xFF]" _ "''x''" _ ?S, THEN conjunct2, rule_format, OF disjI1, OF bad]
  have hs: "srv_headers ?S = [(code_points_of ''Host'', code_points_of ''a.example'')]"
    by simp
  have d1: "dict_set [(code_points_of ''Host'', code_points_of ''a.example'')]
              (code_points_of ''host'') (code_points_of ''b.example'')
            = [(code_points_of ''Host'', code_points_of ''a.example''),
               (code_points_of ''host'', code_points_of ''b.example'')]"
    by (simp add: code_points_of_def)
  have d2: "dict_set [(code_points_of ''Host'', code_points_of ''a.example'')]
              (code_points_of ''Host'') (code_points_of ''c.example'')
            = [(code_points_of ''Host'', code_points_of ''c.example'')]"
    by simp
  have d3: "dict_set [(code_points_of ''Host'', code_points_of ''a.example'')]
              (code_points_of ''X-Name'') [233]
            = [(code_points_of ''Host'', code_points_of ''a.example''),
               (code_points_of ''X-Name'', [233])]"
    by (simp add: code_points_of_def)
  have c_second: "on_header ?S ''host'' ''b.example''
      = Inr (Server\<lparr>srv_headers :=
               [(code_points_of ''Host'', code_points_of ''a.example''),
                (code_points_of ''host'', code_points_of ''b.example'')]\<rparr>)"
    using second unfolding hs d1 by simp
  have c_replaced: "on_header ?S ''Host'' ''c.example''
      = Inr (Server\<lparr>srv_headers :=
               [(code_points_of ''Host'', code_points_of ''c.example'')]\<rparr>)"
    using replaced unfolding hs d2 by simp
  have c_nonascii: "on_header ?S ''X-Name'' [CHR 0xC3, CHR 0xA9]
      = Inr (Server\<lparr>srv_headers :=
               [(code_points_of ''Host'', code_points_of ''a.example''),
                (code_points_of ''X-Name'', [233])]\<rparr>)"
    using nonascii unfolding hs d3 by simp
  show ?thesis
    by (intro conjI host b c_second other c_replaced c_nonascii bad raises)
qed

section \<open>The protocol factory\<close>

text \<open>
  Claim C8. Each accepted connection is to get an adapter of its own from the protocol
  factory. The factory of \<open>run_app\<close> returns the one \<open>Server\<close> object made before the
  server was created: it gives the same address at every call and makes no object, so
  two connections accepted one after the other share the adapter at address 0, and the
  second \<open>connection_made\<close> overwrites the transport the first one stored.
\<close>

theorem run_app_factory_shares_server:
  "fst (fst (run_app st) s1) = fst (fst (run_app st) s2)
   \<and> snd (fst (run_app st) s1) = s1
   \<and> fst (accept_connection (fst (run_app empty_store)) 1 (snd (run_app empty_store))) = 0
   \<and> fst (accept_connection (fst (run_app empty_store)) 2
            (snd (accept_connection (fst (run_app empty_store)) 1
                   (snd (run_app empty_store))))) = 0
   \<and> store_objs (snd (accept_connection (fst (run_app empty_store)) 2
            (snd (accept_connection (fst (run_app empty_store)) 1
                   (snd (run_app empty_store)))))) 0
       = Some (Server\<lparr>srv_transport := Some 2\<rparr>)"
  by (simp add: run_app_def make_server_def accept_connection_def update_obj_def
      empty_store_def connection_made_def split: prod.splits)

section \<open>Serialization of a response without a body\<close>

text \<open>
  Claim C9. For every Response whose body is \<open>None\<close>, \<open>__str__\<close> raises: the lookup of the
  status raises \<open>TypeError\<close> when the table has no entry, and otherwise
  \<open>len(self._body)\<close> does, so neither the text nor the bytes for the wire are produced.
  An \<open>HTTPNotFound\<close> built with \<open>reason=None\<close> is such a response.
\<close>

theorem response_str_None_body_raises:
  "resp_body r = None \<Longrightarrow>
     (\<exists>msg. response_str tbl r = Inl (Exc ''TypeError'' msg))
     \<and> (\<exists>msg. response_bytes tbl r = Inl (Exc ''TypeError'' msg))"
  by (auto simp add: response_str_def response_bytes_def none_unpack_error_def
      none_len_error_def split: option.splits)

theorem response_str_None_body_raises_witness:
  "resp_body (HTTPNotFound None None) = None
   \<and> (\<exists>msg. response_str web_responses (HTTPNotFound None None) = Inl (Exc ''TypeError'' msg))
   \<and> (\<exists>msg. response_bytes web_responses (HTTPNotFound None None)
          = Inl (Exc ''TypeError'' msg))"
proof -
  have h: "resp_body (HTTPNotFound None None) = None"
    by (simp add: HTTPNotFound_def HTTPException_def Response_def)
  show ?thesis
    using h response_str_None_body_raises [OF h, of web_responses] by simp
qed

section \<open>Dispatch on an empty route table\<close>

text \<open>
  Claim C10. With no route registered, \<open>resolve\<close> returns \<open>None\<close> and raises nothing;
  unpacking that result in \<open>Application._handler\<close> raises \<open>TypeError\<close>, which the
  \<open>except Exception\<close> clause turns into the response of \<open>format_exception\<close>: status 500
  and content type \<open>text/html\<close>, not a 404. The single-file copy does the same.
\<close>

theorem empty_routes_give_500:
  "app_routes a = [] \<Longrightarrow>
     resolve (app_routes a) request = Some (Inr None)
     \<and> app_handler tb a request w
         = Some (w (format_exception tb ''cannot unpack non-iterable NoneType object''))
     \<and> app_handler_single_file tb a request w
         = Some (w (format_exception tb ''cannot unpack non-iterable NoneType object''))
     \<and> resp_status (format_exception tb ''cannot unpack non-iterable NoneType object'')
         = Some 500
     \<and> resp_content_type (format_exception tb ''cannot unpack non-iterable NoneType object'')
         = ''text/html''"
  by (simp add: app_handler_def handler_with_def handler_try_def handler_finish_def
      app_handler_single_file_def handler_try_single_file_def
      none_unpack_error_def format_exception_def add_body_def Response_def)

theorem empty_routes_give_500_witness:
  "app_routes \<lparr>app_routes = [], app_middlewares = []\<rparr> = []
   \<and> app_handler ''trace'' \<lparr>app_routes = [], app_middlewares = []\<rparr>
         \<lparr>req_version = ''1.1'', req_method = ''GET'', req_raw_path = ''/alice'',
          req_headers = [], req_body = None, req_match_info = []\<rparr> Inr
       = Some (Inr (format_exception ''trace''
                      ''cannot unpack non-iterable NoneType object'') :: exn + response)
   \<and> resp_status (format_exception ''trace'' ''cannot unpack non-iterable NoneType object'')
       = Some 500"
proof -
  have h: "app_routes \<lparr>app_routes = [], app_middlewares = []\<rparr> = []"
    by simp
  show ?thesis
    using h empty_routes_give_500 [OF h, of
        "\<lparr>req_version = ''1.1'', req_method = ''GET'', req_raw_path = ''/alice'',
          req_headers = [], req_body = None, req_match_info = []\<rparr>"
        "''trace''" "Inr :: response \<Rightarrow> exn + response"]
    by simp
qed

end
